theory Spec2Isabelle
  imports Complex_Main
begin

section \<open>Decision theory and Bayesian methods: loss functions\<close>

text \<open>
  A shallow embedding of the notebook \<^verbatim>\<open>bayesian-methods-ml-decision-theory.ipynb\<close>.
  Python floats are read as real numbers, one-dimensional numpy arrays as lists of
  reals, and every exception the notebook's own expressions can raise (a shape
  mismatch in an elementwise operation or in a boolean-mask assignment, the minimum
  of an empty array) is a value \<open>Inl e\<close> of a sum type. The sampler, the draw of
  one normal value and the simplex minimiser belong to other libraries: the trace and
  the two functions are parameters of the definitions that use them.
\<close>

subsection \<open>The loss function\<close>

text \<open>
  \<^verbatim>\<open>
  def stock_loss(true_return, prediction, alpha=100.):
      if true_return*prediction < 0:
          return alpha*prediction**2 -np.sign(true_return)*prediction + np.abs(true_return)
      else:
          return np.abs(true_return - prediction)
  \<close>
  \<open>np.sign\<close> is \<open>-1\<close>, \<open>0\<close> or \<open>1\<close>, which is \<^const>\<open>sgn\<close> on the reals.
\<close>

definition stock_loss :: "real \<Rightarrow> real \<Rightarrow> real \<Rightarrow> real" where
  "stock_loss true_return prediction alpha =
     (if true_return * prediction < 0
      then alpha * prediction ^ 2 - sgn true_return * prediction + \<bar>true_return\<bar>
      else \<bar>true_return - prediction\<bar>)"

text \<open>The call \<^verbatim>\<open>stock_loss(true_return, prediction)\<close>, with \<open>alpha\<close> left at its default.\<close>

definition stock_loss_default :: "real \<Rightarrow> real \<Rightarrow> real" where
  "stock_loss_default true_return prediction = stock_loss true_return prediction 100"

subsection \<open>One-dimensional numpy arrays\<close>

datatype np_error = ValueError | IndexError

text \<open>A float that is a number, or the \<open>nan\<close> that the mean of an empty array is.\<close>

datatype np_float = Finite real | NaN

definition zeros_like :: "real list \<Rightarrow> real list" where
  "zeros_like xs = replicate (length xs) 0"

definition count_nonzero :: "bool list \<Rightarrow> nat" where
  "count_nonzero ix = length (filter id ix)"

text \<open>\<^verbatim>\<open>arr[ix]\<close> for a boolean array \<open>ix\<close>: the elements where \<open>ix\<close> is true, in order.\<close>

fun take_where :: "bool list \<Rightarrow> 'a list \<Rightarrow> 'a list" where
  "take_where (m # ix) (x # xs) = (if m then x # take_where ix xs else take_where ix xs)"
| "take_where _ _ = []"

definition getitem_mask :: "real list \<Rightarrow> bool list \<Rightarrow> np_error + real list" where
  "getitem_mask arr ix =
     (if length ix \<noteq> length arr then Inl IndexError else Inr (take_where ix arr))"

text \<open>
  \<^verbatim>\<open>arr[ix] = vals\<close>: the values go, in order, to the places where \<open>ix\<close> is true. numpy
  accepts as many values as there are such places, or one value for all of them, and
  raises \<open>ValueError\<close> on any other number.
\<close>

fun put_where :: "bool list \<Rightarrow> real list \<Rightarrow> real list \<Rightarrow> real list" where
  "put_where (True # ix) (x # xs) (v # vs) = v # put_where ix xs vs"
| "put_where (m # ix) (x # xs) vs = x # put_where ix xs vs"
| "put_where _ xs _ = xs"

definition setitem_mask :: "real list \<Rightarrow> bool list \<Rightarrow> real list \<Rightarrow> np_error + real list" where
  "setitem_mask arr ix vals =
     (if length ix \<noteq> length arr then Inl IndexError
      else if length vals = count_nonzero ix then Inr (put_where ix arr vals)
      else if length vals = 1
        then Inr (put_where ix arr (replicate (count_nonzero ix) (hd vals)))
      else Inl ValueError)"

text \<open>
  \<^verbatim>\<open>xs + ys\<close> on two arrays: elementwise on equal lengths, an array of length one is
  broadcast, any other pair of lengths raises \<open>ValueError\<close>.
\<close>

definition np_add :: "real list \<Rightarrow> real list \<Rightarrow> np_error + real list" where
  "np_add xs ys =
     (if length xs = length ys then Inr (map2 (+) xs ys)
      else if length xs = 1 then Inr (map (\<lambda>y. hd xs + y) ys)
      else if length ys = 1 then Inr (map (\<lambda>x. x + hd ys) xs)
      else Inl ValueError)"

text \<open>\<^verbatim>\<open>arr.mean()\<close>: the mean of an empty array is \<open>nan\<close> (with a warning), not an error.\<close>

definition np_mean :: "real list \<Rightarrow> np_float" where
  "np_mean xs = (if xs = [] then NaN else Finite (sum_list xs / real (length xs)))"

text \<open>\<^verbatim>\<open>arr.min()\<close> and \<^verbatim>\<open>arr.max()\<close> raise \<open>ValueError\<close> on an empty array.\<close>

definition np_min :: "real list \<Rightarrow> np_error + real" where
  "np_min xs = (if xs = [] then Inl ValueError else Inr (Min (set xs)))"

definition np_max :: "real list \<Rightarrow> np_error + real" where
  "np_max xs = (if xs = [] then Inl ValueError else Inr (Max (set xs)))"

text \<open>
  Modelled from the spec: \<^verbatim>\<open>np.linspace\<close> is numpy's, and its code is not among the
  sources. The spec's Signal Grid is "an ordered sequence of signal values
  (deterministic, evenly spaced over the observed signal range)", "50 points spanning
  the observed signal range": \<open>num\<close> points from \<open>start\<close> to \<open>stop\<close>, both included,
  in steps of \<open>(stop - start) / (num - 1)\<close>.
\<close>

definition linspace :: "real \<Rightarrow> real \<Rightarrow> nat \<Rightarrow> real list" where
  "linspace start stop num =
     (if num = 1 then [start]
      else map (\<lambda>i. start + real i * ((stop - start) / real (num - 1))) [0..<num])"

subsection \<open>The vectorised loss function\<close>

text \<open>
  \<^verbatim>\<open>
  def vectorised_stock_loss(true_return, prediction, alpha=500.):
      loss = np.zeros_like(true_return)
      ix = true_return*prediction < 0
      loss[ix] = alpha*prediction**2 - np.sign(true_return[ix])*prediction + np.abs(true_return[ix])
      loss[~ix] = np.abs(true_return[~ix] - prediction)
      return loss
  \<close>
\<close>

definition vectorised_stock_loss :: "real list \<Rightarrow> real \<Rightarrow> real \<Rightarrow> np_error + real list" where
  "vectorised_stock_loss true_return prediction alpha =
     (let loss = zeros_like true_return;
          ix = map (\<lambda>t. t * prediction < 0) true_return
      in case getitem_mask true_return ix of
           Inl e \<Rightarrow> Inl e
         | Inr opposite \<Rightarrow>
             (case setitem_mask loss ix
                     (map (\<lambda>t. alpha * prediction ^ 2 - sgn t * prediction + \<bar>t\<bar>) opposite) of
                Inl e \<Rightarrow> Inl e
              | Inr loss1 \<Rightarrow>
                  (case getitem_mask true_return (map Not ix) of
                     Inl e \<Rightarrow> Inl e
                   | Inr same \<Rightarrow>
                       setitem_mask loss1 (map Not ix) (map (\<lambda>t. \<bar>t - prediction\<bar>) same))))"

text \<open>The call \<^verbatim>\<open>vectorised_stock_loss(true_return, prediction)\<close>, as the loop makes it.\<close>

definition vectorised_stock_loss_default :: "real list \<Rightarrow> real \<Rightarrow> np_error + real list" where
  "vectorised_stock_loss_default true_return prediction =
     vectorised_stock_loss true_return prediction 500"

subsection \<open>The posterior trace\<close>

text \<open>
  One draw \<open>(a, b, sigma)\<close> of the sampler; a trace is the list of its draws, in the
  order of the chain. \<^verbatim>\<open>trace = pm.sample(100000, step=pm.Metropolis())\<close> is the
  sampler's: the trace enters as a list.
\<close>

record parameter_sample =
  a :: real
  b :: real
  sigma :: real

text \<open>\<^verbatim>\<open>burned_trace = trace[20000:]\<close>\<close>

definition burned_trace :: "parameter_sample list \<Rightarrow> parameter_sample list" where
  "burned_trace trace = drop 20000 trace"

text \<open>
  \<^verbatim>\<open>
  a_samples = burned_trace['a']
  b_samples = burned_trace['b']
  sigma_trace = burned_trace['sigma']
  num_samples = a_samples.shape[0]
  \<close>
\<close>

definition a_samples :: "parameter_sample list \<Rightarrow> real list" where
  "a_samples burned = map a burned"

definition b_samples :: "parameter_sample list \<Rightarrow> real list" where
  "b_samples burned = map b burned"

definition sigma_trace :: "parameter_sample list \<Rightarrow> real list" where
  "sigma_trace burned = map sigma burned"

definition num_samples :: "parameter_sample list \<Rightarrow> nat" where
  "num_samples burned = length (a_samples burned)"

subsection \<open>The population of returns and the expected loss\<close>

text \<open>\<^verbatim>\<open>returns_population = lambda signal: a_samples + b_samples*signal + noise\<close>\<close>

definition returns_population ::
  "real list \<Rightarrow> real list \<Rightarrow> real list \<Rightarrow> real \<Rightarrow> np_error + real list" where
  "returns_population a_s b_s noise signal =
     (case np_add a_s (map (\<lambda>b_i. b_i * signal) b_s) of
        Inl e \<Rightarrow> Inl e
      | Inr mu \<Rightarrow> np_add mu noise)"

text \<open>
  \<^verbatim>\<open>exp_value = lambda pred: vectorised_stock_loss(returns_population(signal), pred).mean()\<close>
\<close>

definition exp_value ::
  "real list \<Rightarrow> real list \<Rightarrow> real list \<Rightarrow> real \<Rightarrow> real \<Rightarrow> np_error + np_float" where
  "exp_value a_s b_s noise signal pred =
     (case returns_population a_s b_s noise signal of
        Inl e \<Rightarrow> Inl e
      | Inr population \<Rightarrow>
          (case vectorised_stock_loss_default population pred of
             Inl e \<Rightarrow> Inl e
           | Inr loss \<Rightarrow> Inr (np_mean loss)))"

subsection \<open>The signal grid and the minimisation loop\<close>

text \<open>\<^verbatim>\<open>signals = np.linspace(X.min(), X.max(), 50)\<close>\<close>

definition signals :: "real list \<Rightarrow> np_error + real list" where
  "signals X =
     (case np_min X of
        Inl e \<Rightarrow> Inl e
      | Inr lo \<Rightarrow> (case np_max X of Inl e \<Rightarrow> Inl e | Inr hi \<Rightarrow> Inr (linspace lo hi 50)))"

text \<open>
  scipy's \<open>fmin\<close>, a parameter: from an objective and an initial guess to the point it
  ends at, or to the exception that the objective raised. \<open>fmin\<close> hands the objective
  an array of one element, which numpy broadcasts as the scalar it holds, and returns
  such an array, which the assignment to \<^verbatim>\<open>opt_predictions[i]\<close> reads as its element.
\<close>

type_synonym minimiser = "(real \<Rightarrow> np_error + np_float) \<Rightarrow> real \<Rightarrow> np_error + real"

text \<open>
  \<^verbatim>\<open>
  opt_predictions = np.zeros_like(signals)
  for i, signal in tqdm(enumerate(signals)):
      exp_value = lambda pred: vectorised_stock_loss(returns_population(signal), pred).mean()
      opt_predictions[i] = fmin(exp_value, 0, disp=False)
  \<close>
  The loop runs over the pairs of \<open>enumerate\<close> and carries the array it fills.
\<close>

fun minimisation_loop ::
  "minimiser \<Rightarrow> real list \<Rightarrow> real list \<Rightarrow> real list \<Rightarrow> (nat \<times> real) list \<Rightarrow> real list
     \<Rightarrow> np_error + real list" where
  "minimisation_loop fmin a_s b_s noise [] opt_predictions = Inr opt_predictions"
| "minimisation_loop fmin a_s b_s noise ((i, signal) # rest) opt_predictions =
     (case fmin (exp_value a_s b_s noise signal) 0 of
        Inl e \<Rightarrow> Inl e
      | Inr r \<Rightarrow>
          if i < length opt_predictions
          then minimisation_loop fmin a_s b_s noise rest (opt_predictions[i := r])
          else Inl IndexError)"

definition optimal_predictions ::
  "minimiser \<Rightarrow> real list \<Rightarrow> real list \<Rightarrow> real list \<Rightarrow> real list \<Rightarrow> np_error + real list" where
  "optimal_predictions fmin a_s b_s noise sigs =
     minimisation_loop fmin a_s b_s noise (enumerate 0 sigs) (zeros_like sigs)"

text \<open>
  Modelled from the spec: \<^verbatim>\<open>pm.Normal.dist(mu=0., sd=sigma_trace).random()\<close> is pymc3's,
  and its code is not among the sources. The spec has it that "noise is drawn once per
  parameter sample using that sample's own \<open>\<sigma>\<^sub>i\<close>": one normal draw for each entry of
  the array of scales, in order, each with its own scale. The draw of one value, from
  the generator's state and a scale to a value and the state after it, is a parameter.
\<close>

type_synonym 'g normal_draw = "'g \<Rightarrow> real \<Rightarrow> real \<times> 'g"

fun noise_generator_random :: "'g normal_draw \<Rightarrow> 'g \<Rightarrow> real list \<Rightarrow> real list \<times> 'g" where
  "noise_generator_random draw rng [] = ([], rng)"
| "noise_generator_random draw rng (sd # sds) =
     (let (eps, rng1) = draw rng sd;
          (rest, rng2) = noise_generator_random draw rng1 sds
      in (eps # rest, rng2))"

text \<open>
  The cells from the burned trace to the optimal predictions, with the state of the
  random generator passed through.
  \<^verbatim>\<open>
  noise_generator = pm.Normal.dist(mu=0., sd=sigma_trace)
  noise = noise_generator.random()
  \<close>
  The cell of the loop follows; \<open>returns_population\<close> and \<open>exp_value\<close> read the global
  \<open>noise\<close> that this cell has set.
\<close>

definition predict_optimal_returns ::
  "'g normal_draw \<Rightarrow> minimiser \<Rightarrow> 'g \<Rightarrow> parameter_sample list \<Rightarrow> real list
     \<Rightarrow> (np_error + real list) \<times> 'g" where
  "predict_optimal_returns draw fmin rng burned sigs =
     (let a_s = a_samples burned;
          b_s = b_samples burned;
          sd = sigma_trace burned;
          (noise, rng') = noise_generator_random draw rng sd
      in (optimal_predictions fmin a_s b_s noise sigs, rng'))"

subsection \<open>What the specification asks of the loop\<close>

text \<open>
  "Applied independently, once per entry of the Signal Grid, producing the Optimal
  Prediction Array; order preserved, one-to-one with the Signal Grid": the results of
  the runs, in order, or the first exception among them.
\<close>

fun collect_results :: "(np_error + real) list \<Rightarrow> np_error + real list" where
  "collect_results [] = Inr []"
| "collect_results (Inl e # rs) = Inl e"
| "collect_results (Inr r # rs) =
     (case collect_results rs of Inl e \<Rightarrow> Inl e | Inr xs \<Rightarrow> Inr (r # xs))"

definition once_per_signal ::
  "minimiser \<Rightarrow> (real \<Rightarrow> real \<Rightarrow> np_error + np_float) \<Rightarrow> real list \<Rightarrow> np_error + real list" where
  "once_per_signal fmin objective sigs =
     collect_results (map (\<lambda>signal. fmin (objective signal) 0) sigs)"

section \<open>Properties of the loss function\<close>

lemma stock_loss_opposite_sign:
  assumes "true_return * prediction < 0"
  shows "stock_loss true_return prediction alpha =
         alpha * prediction ^ 2 + \<bar>prediction\<bar> + \<bar>true_return\<bar>"
proof -
  from assms consider "true_return < 0" "0 < prediction" | "0 < true_return" "prediction < 0"
    by (auto simp: mult_less_0_iff)
  then show ?thesis
    using assms by cases (simp_all add: stock_loss_def)
qed

text \<open>
  C1. For every true value, prediction and \<open>alpha > 0\<close>, the loss is
  \<open>alpha * prediction\<^sup>2 - sign(true_value) * prediction + |true_value|\<close> when
  \<open>true_value * prediction < 0\<close> and \<open>|true_value - prediction|\<close> otherwise. With a
  true value (or a prediction) of \<open>0\<close> the product is \<open>0\<close>, the strict test fails and
  the loss is the absolute error: \<open>loss(0, prediction) = |prediction|\<close>.
\<close>

theorem stock_loss_branches:
  assumes "0 < alpha"
  shows "stock_loss true_return prediction alpha =
           (if true_return * prediction < 0
            then alpha * prediction ^ 2 - sgn true_return * prediction + \<bar>true_return\<bar>
            else \<bar>true_return - prediction\<bar>)
         \<and> \<not> (0 * prediction < 0)
         \<and> stock_loss 0 prediction alpha = \<bar>0 - prediction\<bar>
         \<and> stock_loss 0 prediction alpha = \<bar>prediction\<bar>
         \<and> stock_loss true_return 0 alpha = \<bar>true_return - 0\<bar>"
  by (simp add: stock_loss_def)

theorem stock_loss_branches_witness:
  "(0::real) < 100
   \<and> stock_loss (5 / 100) (- (1 / 10)) 100 = 115 / 100
   \<and> stock_loss (5 / 100) (1 / 10) 100 = 5 / 100
   \<and> stock_loss 0 (- (1 / 10)) 100 = 1 / 10
   \<and> stock_loss (5 / 100) 0 100 = 5 / 100"
  using stock_loss_branches [of 100 "5 / 100" "- (1 / 10)"]
        stock_loss_branches [of 100 "5 / 100" "1 / 10"]
  by (simp add: power2_eq_square)

text \<open>
  C4, as the code has it. On the quadratic branch the true value and the prediction
  have opposite signs, so \<open>- sign(true_value) * prediction\<close> is \<open>|prediction|\<close> and the
  loss is \<open>alpha * prediction\<^sup>2 + |prediction| + |true_value|\<close>: no true value,
  prediction and \<open>alpha > 0\<close> give a negative loss.
\<close>

theorem stock_loss_negative_counterexample:
  "\<not> (\<exists>true_return prediction alpha.
         0 < alpha \<and> true_return * prediction < 0
         \<and> stock_loss true_return prediction alpha < 0)"
proof
  assume "\<exists>true_return prediction alpha.
         0 < alpha \<and> true_return * prediction < 0
         \<and> stock_loss true_return prediction alpha < 0"
  then obtain t p al
    where al: "(0::real) < al" and opp: "t * p < 0" and neg: "stock_loss t p al < 0"
    by blast
  have "0 \<le> al * p ^ 2" using al by simp
  then have "0 \<le> al * p ^ 2 + \<bar>p\<bar> + \<bar>t\<bar>" by linarith
  with neg show False by (simp add: stock_loss_opposite_sign [OF opp])
qed

text \<open>
  C4, amended. For every true value, prediction and \<open>alpha > 0\<close> the loss is
  non-negative, as the contract's return type says; on the quadratic branch it is
  \<open>alpha * prediction\<^sup>2 + |prediction| + |true_value|\<close>, which is strictly positive.
\<close>

theorem stock_loss_nonneg:
  assumes "0 < alpha"
  shows "0 \<le> stock_loss true_return prediction alpha
         \<and> (true_return * prediction < 0 \<longrightarrow>
              stock_loss true_return prediction alpha
                = alpha * prediction ^ 2 + \<bar>prediction\<bar> + \<bar>true_return\<bar>
              \<and> 0 < stock_loss true_return prediction alpha)"
proof (cases "true_return * prediction < 0")
  case True
  have p: "prediction \<noteq> 0" using True by auto
  have "0 \<le> alpha * prediction ^ 2" using assms by simp
  moreover have "0 < \<bar>prediction\<bar>" using p by simp
  ultimately have "0 < alpha * prediction ^ 2 + \<bar>prediction\<bar> + \<bar>true_return\<bar>"
    by linarith
  then show ?thesis by (simp add: stock_loss_opposite_sign [OF True])
next
  case False
  then show ?thesis by (simp add: stock_loss_def)
qed

theorem stock_loss_nonneg_witness:
  "(0::real) < 100 \<and> 0 \<le> stock_loss 1 (- (1 / 1000)) 100
   \<and> (1::real) * (- (1 / 1000)) < 0
   \<and> stock_loss 1 (- (1 / 1000)) 100 = 10011 / 10000
   \<and> 0 < stock_loss 1 (- (1 / 1000)) 100"
  using stock_loss_nonneg [of 100 1 "- (1 / 1000)"]
  by (simp add: power2_eq_square)

section \<open>The vectorised loss is the scalar loss, element by element\<close>

lemma length_take_where:
  "length ix = length xs \<Longrightarrow> length (take_where ix xs) = count_nonzero ix"
  by (induction ix xs rule: take_where.induct) (auto simp: count_nonzero_def)

text \<open>
  A masked assignment of \<open>f\<close> of the selected elements writes \<open>f x\<close> where the test
  holds of \<open>x\<close> and keeps the old entry elsewhere.
\<close>

lemma put_where_selected:
  "length loss = length xs \<Longrightarrow>
   put_where (map p xs) loss (map f (take_where (map p xs) xs))
     = map (\<lambda>(l, x). if p x then f x else l) (zip loss xs)"
proof (induction xs arbitrary: loss)
  case Nil
  then show ?case by simp
next
  case (Cons x xs)
  then obtain l ls where "loss = l # ls" by (cases loss) auto
  with Cons show ?case by (cases "p x") auto
qed

lemma put_where_complement:
  "length loss = length xs \<Longrightarrow>
   map (\<lambda>(l, x). if \<not> p x then g x else l)
       (zip (map (\<lambda>(l, x). if p x then f x else l) (zip loss xs)) xs)
     = map (\<lambda>x. if p x then f x else g x) xs"
proof (induction xs arbitrary: loss)
  case Nil
  then show ?case by simp
next
  case (Cons x xs)
  then obtain l ls where "loss = l # ls" by (cases loss) auto
  with Cons show ?case by auto
qed

lemma vectorised_stock_loss_map:
  "vectorised_stock_loss true_return prediction alpha
     = Inr (map (\<lambda>t. stock_loss t prediction alpha) true_return)"
proof -
  let ?p = "\<lambda>t. t * prediction < 0"
  let ?f = "\<lambda>t. alpha * prediction ^ 2 - sgn t * prediction + \<bar>t\<bar>"
  let ?g = "\<lambda>t. \<bar>t - prediction\<bar>"
  let ?ix = "map ?p true_return"
  let ?nix = "map (\<lambda>t. \<not> ?p t) true_return"
  let ?loss1 = "map (\<lambda>(l, x). if ?p x then ?f x else l)
                    (zip (zeros_like true_return) true_return)"
  have g1: "getitem_mask true_return ?ix = Inr (take_where ?ix true_return)"
    by (simp add: getitem_mask_def)
  have s1: "setitem_mask (zeros_like true_return) ?ix (map ?f (take_where ?ix true_return))
              = Inr ?loss1"
    by (simp add: setitem_mask_def zeros_like_def length_take_where put_where_selected)
  have g2: "getitem_mask true_return ?nix = Inr (take_where ?nix true_return)"
    by (simp add: getitem_mask_def)
  have "put_where ?nix ?loss1 (map ?g (take_where ?nix true_return))
          = map (\<lambda>(l, x). if \<not> ?p x then ?g x else l) (zip ?loss1 true_return)"
    by (rule put_where_selected [where p = "\<lambda>t. \<not> ?p t"]) (simp add: zeros_like_def)
  also have "\<dots> = map (\<lambda>x. if ?p x then ?f x else ?g x) true_return"
    by (rule put_where_complement) (simp add: zeros_like_def)
  finally have s2: "setitem_mask ?loss1 ?nix (map ?g (take_where ?nix true_return))
              = Inr (map (\<lambda>x. if ?p x then ?f x else ?g x) true_return)"
    by (simp add: setitem_mask_def length_take_where zeros_like_def)
  have "map Not ?ix = ?nix" by (simp add: comp_def)
  then show ?thesis
    unfolding vectorised_stock_loss_def Let_def
    by (simp only: g1 s1 g2 s2 sum.case) (simp add: stock_loss_def)
qed

text \<open>
  C3. For every finite sequence of true values, the empty one included, and every
  scalar prediction, the vectorised loss raises nothing and returns the sequence of
  the same length whose \<open>i\<close>-th element is the scalar loss of the \<open>i\<close>-th true value
  and the prediction, with the same \<open>alpha\<close>; on the empty sequence it returns the
  empty sequence.
\<close>

theorem vectorised_stock_loss_elementwise:
  "vectorised_stock_loss true_return prediction alpha
     = Inr (map (\<lambda>t. stock_loss t prediction alpha) true_return)
   \<and> length (map (\<lambda>t. stock_loss t prediction alpha) true_return) = length true_return
   \<and> vectorised_stock_loss [] prediction alpha = Inr []"
  by (simp add: vectorised_stock_loss_map)

text \<open>
  C10. The scalar loss defaults to \<open>alpha = 100\<close> and the vectorised loss to
  \<open>alpha = 500\<close>. Called with their defaults, the vectorised loss exceeds the scalar
  one by exactly \<open>400 * prediction\<^sup>2\<close> on every element whose true value has the
  opposite sign of the prediction (the prediction is then not \<open>0\<close>, so the two
  differ), and the two agree exactly on the other elements.
\<close>

theorem default_alphas_differ:
  "vectorised_stock_loss_default true_returns prediction
     = Inr (map (\<lambda>t. if t * prediction < 0
                      then stock_loss_default t prediction + 400 * prediction ^ 2
                      else stock_loss_default t prediction) true_returns)
   \<and> (true_return * prediction < 0 \<longrightarrow>
        prediction \<noteq> 0
        \<and> vectorised_stock_loss_default [true_return] prediction
            = Inr [stock_loss_default true_return prediction + 400 * prediction ^ 2]
        \<and> vectorised_stock_loss_default [true_return] prediction
            \<noteq> Inr [stock_loss_default true_return prediction])
   \<and> ((vectorised_stock_loss_default [true_return] prediction
          = Inr [stock_loss_default true_return prediction])
        = (\<not> true_return * prediction < 0))"
proof -
  have elt: "stock_loss t prediction 500 =
               (if t * prediction < 0
                then stock_loss_default t prediction + 400 * prediction ^ 2
                else stock_loss_default t prediction)" for t
    by (simp add: stock_loss_def stock_loss_default_def)
  have nz: "true_return * prediction < 0 \<Longrightarrow> prediction \<noteq> 0" by auto
  show ?thesis
    unfolding vectorised_stock_loss_default_def vectorised_stock_loss_map
    using nz by (auto simp: elt)
qed

theorem default_alphas_differ_witness:
  "(5 / 100 :: real) * (- (1 / 10)) < 0
   \<and> vectorised_stock_loss_default [5 / 100] (- (1 / 10)) = Inr [515 / 100]
   \<and> stock_loss_default (5 / 100) (- (1 / 10)) = 115 / 100
   \<and> vectorised_stock_loss_default [5 / 100, - (1 / 10)] (- (1 / 10)) = Inr [515 / 100, 0]"
  using default_alphas_differ [of "[5 / 100, - (1 / 10)]" "- (1 / 10)" "5 / 100"]
  by (simp add: stock_loss_default_def stock_loss_def power2_eq_square)

section \<open>The population of returns\<close>

lemma np_add_same_length:
  "length xs = length ys \<Longrightarrow> np_add xs ys = Inr (map (\<lambda>i. xs ! i + ys ! i) [0..<length xs])"
  unfolding np_add_def by (auto intro!: nth_equalityI)

lemma returns_population_same_length:
  assumes "length b_s = length a_s" and "length noise = length a_s"
  shows "returns_population a_s b_s noise signal
           = Inr (map (\<lambda>i. a_s ! i + b_s ! i * signal + noise ! i) [0..<length a_s])"
proof -
  let ?mu = "map (\<lambda>i. a_s ! i + map (\<lambda>b_i. b_i * signal) b_s ! i) [0..<length a_s]"
  have mu: "np_add a_s (map (\<lambda>b_i. b_i * signal) b_s) = Inr ?mu"
    using assms by (simp add: np_add_same_length)
  have "np_add ?mu noise = Inr (map (\<lambda>i. ?mu ! i + noise ! i) [0..<length ?mu])"
    using assms by (intro np_add_same_length) simp
  also have "map (\<lambda>i. ?mu ! i + noise ! i) [0..<length ?mu]
               = map (\<lambda>i. a_s ! i + b_s ! i * signal + noise ! i) [0..<length a_s]"
    using assms by (auto intro!: nth_equalityI)
  finally show ?thesis by (simp add: returns_population_def mu)
qed

text \<open>
  C7. For every signal value \<open>x\<close>, with one noise draw per sample of the burned
  trace, the population of returns is a sequence as long as the trace whose \<open>i\<close>-th
  element is \<open>a\<^sub>i + b\<^sub>i * x + noise[i]\<close>.
\<close>

theorem returns_population_elements:
  assumes "length noise = length burned"
  shows "\<exists>population.
           returns_population (a_samples burned) (b_samples burned) noise x = Inr population
           \<and> length population = length burned
           \<and> length population = num_samples burned
           \<and> (\<forall>i<length burned.
                 population ! i = a (burned ! i) + b (burned ! i) * x + noise ! i)"
  using assms
  by (simp add: returns_population_same_length a_samples_def b_samples_def num_samples_def)

theorem returns_population_elements_witness:
  "length [1 / 100, - (1 / 100) :: real]
     = length [\<lparr>a = 0, b = 1 / 2, sigma = 1 / 100\<rparr>, \<lparr>a = 1 / 10, b = 1, sigma = 2 / 100\<rparr>]
   \<and> returns_population
        (a_samples [\<lparr>a = 0, b = 1 / 2, sigma = 1 / 100\<rparr>, \<lparr>a = 1 / 10, b = 1, sigma = 2 / 100\<rparr>])
        (b_samples [\<lparr>a = 0, b = 1 / 2, sigma = 1 / 100\<rparr>, \<lparr>a = 1 / 10, b = 1, sigma = 2 / 100\<rparr>])
        [1 / 100, - (1 / 100)] 2
      = Inr [101 / 100, 209 / 100]"
  using returns_population_elements
          [of "[1 / 100, - (1 / 100)]"
              "[\<lparr>a = 0, b = 1 / 2, sigma = 1 / 100\<rparr>, \<lparr>a = 1 / 10, b = 1, sigma = 2 / 100\<rparr>]" 2]
  by (simp add: returns_population_def np_add_def a_samples_def b_samples_def)

section \<open>The minimisation loop\<close>

lemma collect_results_Inr_D: "collect_results rs = Inr xs \<Longrightarrow> rs = map Inr xs"
proof (induction rs arbitrary: xs rule: collect_results.induct)
  case 1
  then show ?case by simp
next
  case (2 e rs)
  then show ?case by simp
next
  case (3 r rs)
  then show ?case by (auto split: sum.splits)
qed

text \<open>
  The loop from position \<open>k\<close> on: the entries before \<open>k\<close> stay, the others are the
  minimiser's results in the order of the signals, and the first exception ends it.
\<close>

lemma minimisation_loop_enumerate:
  "length opt = k + length sigs \<Longrightarrow>
   minimisation_loop fmin a_s b_s noise (enumerate k sigs) opt =
     (case collect_results (map (\<lambda>signal. fmin (exp_value a_s b_s noise signal) 0) sigs) of
        Inl e \<Rightarrow> Inl e
      | Inr rs \<Rightarrow> Inr (take k opt @ rs))"
proof (induction sigs arbitrary: k opt)
  case Nil
  then show ?case by simp
next
  case (Cons s sigs)
  show ?case
  proof (cases "fmin (exp_value a_s b_s noise s) 0")
    case (Inl e)
    then show ?thesis by simp
  next
    case (Inr r)
    have k: "k < length opt" using Cons.prems by simp
    have len: "length (opt[k := r]) = Suc k + length sigs" using Cons.prems by simp
    have tk: "take (Suc k) (opt[k := r]) = take k opt @ [r]"
      using k by (simp add: take_Suc_conv_app_nth)
    show ?thesis
      using Inr k by (simp add: Cons.IH [OF len] tk split: sum.splits)
  qed
qed

lemma optimal_predictions_once_per_signal:
  "optimal_predictions fmin a_s b_s noise sigs
     = once_per_signal fmin (exp_value a_s b_s noise) sigs"
  unfolding optimal_predictions_def once_per_signal_def
  by (simp add: minimisation_loop_enumerate zeros_like_def split: sum.splits)

lemma exp_value_mean:
  "returns_population a_s b_s noise signal = Inr population \<Longrightarrow>
   exp_value a_s b_s noise signal pred
     = Inr (np_mean (map (\<lambda>R. stock_loss R pred 500) population))"
  by (simp add: exp_value_def vectorised_stock_loss_default_def vectorised_stock_loss_map)

text \<open>
  C6. The minimiser runs once for each entry of the signal grid, from the initial
  guess \<open>0\<close>, on the objective \<open>f(r)\<close> = the mean over the population of returns of
  \<open>loss(population[i], r, alpha)\<close>, where \<open>alpha\<close> is the vectorised loss's default
  \<open>500\<close>. The array of optimal predictions has one entry for each entry of the grid,
  in the same order: entry \<open>i\<close> is the minimiser's result for \<open>signals[i]\<close>.
\<close>

theorem minimisation_once_per_signal:
  "optimal_predictions fmin a_s b_s noise sigs
     = once_per_signal fmin (exp_value a_s b_s noise) sigs
   \<and> (\<forall>opt. optimal_predictions fmin a_s b_s noise sigs = Inr opt \<longrightarrow>
          length opt = length sigs
          \<and> (\<forall>i<length sigs. fmin (exp_value a_s b_s noise (sigs ! i)) 0 = Inr (opt ! i)))
   \<and> (\<forall>population.
          returns_population a_s b_s noise signal = Inr population \<and> population \<noteq> [] \<longrightarrow>
          exp_value a_s b_s noise signal r
            = Inr (Finite (sum_list (map (\<lambda>R. stock_loss R r 500) population)
                           / real (length population))))"
proof -
  have loop: "optimal_predictions fmin a_s b_s noise sigs
          = once_per_signal fmin (exp_value a_s b_s noise) sigs"
    by (rule optimal_predictions_once_per_signal)
  have entries: "length opt = length sigs
          \<and> (\<forall>i<length sigs. fmin (exp_value a_s b_s noise (sigs ! i)) 0 = Inr (opt ! i))"
    if "optimal_predictions fmin a_s b_s noise sigs = Inr opt" for opt
  proof -
    from that
    have rs: "map (\<lambda>signal. fmin (exp_value a_s b_s noise signal) 0) sigs = map Inr opt"
      by (simp add: loop once_per_signal_def collect_results_Inr_D)
    then have len: "length sigs = length opt"
      by (metis length_map)
    have "fmin (exp_value a_s b_s noise (sigs ! i)) 0 = Inr (opt ! i)"
      if i: "i < length sigs" for i
    proof -
      have "map (\<lambda>signal. fmin (exp_value a_s b_s noise signal) 0) sigs ! i = map Inr opt ! i"
        by (simp only: rs)
      then show ?thesis using i len by simp
    qed
    with len show ?thesis by simp
  qed
  have objective: "exp_value a_s b_s noise signal r
            = Inr (Finite (sum_list (map (\<lambda>R. stock_loss R r 500) population)
                           / real (length population)))"
    if "returns_population a_s b_s noise signal = Inr population \<and> population \<noteq> []"
    for population
    using that by (simp add: exp_value_mean np_mean_def)
  from loop entries objective show ?thesis by blast
qed

theorem minimisation_once_per_signal_witness:
  "returns_population [1 / 10] [1] [0] 1 = Inr [11 / 10] \<and> [11 / 10 :: real] \<noteq> []
   \<and> exp_value [1 / 10] [1] [0] 1 (- 1) = Inr (Finite (5021 / 10))
   \<and> optimal_predictions
        (\<lambda>f x0. case f x0 of Inl e \<Rightarrow> Inl e | Inr NaN \<Rightarrow> Inr x0 | Inr (Finite v) \<Rightarrow> Inr v)
        [1 / 10] [1] [0] [0, 1, - 1]
      = Inr [1 / 10, 11 / 10, 9 / 10]
   \<and> length [1 / 10, 11 / 10, 9 / 10 :: real] = length [0, 1, - 1 :: real]"
  using minimisation_once_per_signal
          [of "\<lambda>f x0. case f x0 of Inl e \<Rightarrow> Inl e | Inr NaN \<Rightarrow> Inr x0 | Inr (Finite v) \<Rightarrow> Inr v"
              "[1 / 10]" "[1]" "[0]" "[0, 1, - 1]" 1 "- 1"]
  by (simp add: once_per_signal_def exp_value_def returns_population_def np_add_def
        vectorised_stock_loss_default_def vectorised_stock_loss_map np_mean_def
        stock_loss_def power2_eq_square)

text \<open>
  C5, as the code has it. On an empty population nothing is rejected: the mean of the
  empty loss array is \<open>nan\<close>, so the objective is \<open>nan\<close> at every prediction, and the
  loop stores what the minimiser returns for it. With a minimiser that evaluates the
  objective at its initial guess and raises nothing of its own, the loop ends with
  the prediction \<open>0\<close> and no error.
\<close>

theorem empty_population_counterexample:
  "returns_population [] [] [] 0 = Inr []
   \<and> exp_value [] [] [] 0 0 = Inr NaN
   \<and> optimal_predictions (\<lambda>f x0. case f x0 of Inl e \<Rightarrow> Inl e | Inr v \<Rightarrow> Inr x0) [] [] [] [0]
       = Inr [0]"
  by (simp add: optimal_predictions_once_per_signal once_per_signal_def exp_value_def
        returns_population_def np_add_def vectorised_stock_loss_default_def
        vectorised_stock_loss_map np_mean_def)

text \<open>
  C5, amended. When the population of returns is empty, the code raises no error of
  its own: the objective handed to the minimiser is \<open>nan\<close> at every prediction, and
  the loop returns, for each signal, whatever the minimiser makes of that objective
  from the initial guess \<open>0\<close>.
\<close>

theorem empty_population_objective_nan:
  "(returns_population a_s b_s noise signal = Inr [] \<longrightarrow>
      exp_value a_s b_s noise signal pred = Inr NaN)
   \<and> exp_value [] [] [] signal pred = Inr NaN
   \<and> optimal_predictions fmin [] [] [] sigs
       = collect_results (map (\<lambda>signal. fmin (\<lambda>pred. Inr NaN) 0) sigs)"
proof -
  have empty: "returns_population [] [] [] s = Inr []" for s
    by (simp add: returns_population_def np_add_def)
  have nan: "exp_value [] [] [] s = (\<lambda>pred. Inr NaN)" for s
    by (rule ext) (simp add: exp_value_mean [OF empty] np_mean_def)
  show ?thesis
    by (simp add: exp_value_mean np_mean_def nan optimal_predictions_once_per_signal
          once_per_signal_def)
qed

theorem empty_population_objective_nan_witness:
  "returns_population [] [] [] 3 = Inr [] \<and> exp_value [] [] [] 3 (1 / 2) = Inr NaN
   \<and> optimal_predictions (\<lambda>f x0. case f x0 of Inl e \<Rightarrow> Inl e | Inr v \<Rightarrow> Inr x0) [] [] [] [3, 4]
       = Inr [0, 0]"
  using empty_population_objective_nan
          [of "[]" "[]" "[]" 3 "1 / 2"
              "\<lambda>f x0. case f x0 of Inl e \<Rightarrow> Inl e | Inr v \<Rightarrow> Inr x0" "[3, 4]"]
  by (simp add: returns_population_def np_add_def)

section \<open>One noise array for all signals\<close>

lemma length_noise_generator_random:
  "noise_generator_random draw rng sds = (noise, rng') \<Longrightarrow> length noise = length sds"
  by (induction sds arbitrary: rng noise rng') (auto split: prod.splits)

text \<open>
  The objective that the loop hands to the minimiser for one signal, written out: the
  mean over the samples of the loss of \<open>a\<^sub>i + b\<^sub>i * signal + noise[i]\<close>.
\<close>

lemma exp_value_written_out:
  assumes "length noise = length burned"
  shows "exp_value (a_samples burned) (b_samples burned) noise signal
           = (\<lambda>pred. Inr (np_mean (map (\<lambda>i. stock_loss
                  (a (burned ! i) + b (burned ! i) * signal + noise ! i) pred 500)
                [0..<length burned])))"
proof (rule ext)
  fix pred
  have pop: "returns_population (a_samples burned) (b_samples burned) noise signal
           = Inr (map (\<lambda>i. a (burned ! i) + b (burned ! i) * signal + noise ! i)
                      [0..<length burned])"
    using assms by (simp add: returns_population_same_length a_samples_def b_samples_def)
  show "exp_value (a_samples burned) (b_samples burned) noise signal pred
           = Inr (np_mean (map (\<lambda>i. stock_loss
                  (a (burned ! i) + b (burned ! i) * signal + noise ! i) pred 500)
                [0..<length burned]))"
    by (simp add: exp_value_mean [OF pop] comp_def)
qed

text \<open>
  C2. The noise array is drawn once, one value for each sample of the burned trace
  and each with that sample's own scale: the run leaves the random generator in the
  state that this one pass over the scales left it in. The loop then runs the
  minimiser, for every signal of the grid, on the mean loss over the population
  \<open>a\<^sub>i + b\<^sub>i * signal + noise[i]\<close> built on that same array \<open>noise\<close>, whatever the
  signal. So for all signals \<open>s1\<close>, \<open>s2\<close> and every index \<open>i\<close>,
  \<open>returns_population(s1)[i] - returns_population(s2)[i] = b\<^sub>i * (s1 - s2)\<close>, with no
  noise term that depends on the signal.
\<close>

theorem noise_drawn_once:
  assumes "noise_generator_random draw rng (sigma_trace burned) = (noise, rng')"
  shows "length noise = length burned
         \<and> predict_optimal_returns draw fmin rng burned sigs
           = (collect_results
                (map (\<lambda>signal.
                        fmin (\<lambda>pred. Inr (np_mean (map (\<lambda>i. stock_loss
                                (a (burned ! i) + b (burned ! i) * signal + noise ! i) pred 500)
                              [0..<length burned]))) 0)
                     sigs),
              rng')
         \<and> returns_population (a_samples burned) (b_samples burned) noise s1
           = Inr (map (\<lambda>i. a (burned ! i) + b (burned ! i) * s1 + noise ! i)
                      [0..<length burned])
         \<and> (\<exists>p1 p2.
               returns_population (a_samples burned) (b_samples burned) noise s1 = Inr p1
               \<and> returns_population (a_samples burned) (b_samples burned) noise s2 = Inr p2
               \<and> length p1 = length burned \<and> length p2 = length burned
               \<and> (\<forall>i<length burned. p1 ! i - p2 ! i = b (burned ! i) * (s1 - s2)))"
proof -
  have len: "length noise = length burned"
    using length_noise_generator_random [OF assms] by (simp add: sigma_trace_def)
  have run: "predict_optimal_returns draw fmin rng burned sigs
           = (collect_results
                (map (\<lambda>signal.
                        fmin (\<lambda>pred. Inr (np_mean (map (\<lambda>i. stock_loss
                                (a (burned ! i) + b (burned ! i) * signal + noise ! i) pred 500)
                              [0..<length burned]))) 0)
                     sigs),
              rng')"
    using assms
    by (simp add: predict_optimal_returns_def optimal_predictions_once_per_signal
          once_per_signal_def exp_value_written_out [OF len])
  have pop: "returns_population (a_samples burned) (b_samples burned) noise s
           = Inr (map (\<lambda>i. a (burned ! i) + b (burned ! i) * s + noise ! i)
                      [0..<length burned])" for s
    using len by (simp add: returns_population_same_length a_samples_def b_samples_def)
  have diff: "\<forall>i<length burned.
          map (\<lambda>i. a (burned ! i) + b (burned ! i) * s1 + noise ! i) [0..<length burned] ! i
          - map (\<lambda>i. a (burned ! i) + b (burned ! i) * s2 + noise ! i) [0..<length burned] ! i
          = b (burned ! i) * (s1 - s2)"
    by (simp add: algebra_simps)
  from len run pop diff show ?thesis by simp
qed

theorem noise_drawn_once_witness:
  "noise_generator_random (\<lambda>g sd. (sd * real g, Suc g)) (2 :: nat)
       (sigma_trace [\<lparr>a = 0, b = 1 / 2, sigma = 1 / 100\<rparr>, \<lparr>a = 1 / 10, b = 1, sigma = 3 / 100\<rparr>])
     = ([2 / 100, 9 / 100], 4)
   \<and> predict_optimal_returns (\<lambda>g sd. (sd * real g, Suc g))
        (\<lambda>f x0. case f x0 of Inl e \<Rightarrow> Inl e | Inr NaN \<Rightarrow> Inr x0 | Inr (Finite v) \<Rightarrow> Inr v) 2
        [\<lparr>a = 0, b = 1 / 2, sigma = 1 / 100\<rparr>, \<lparr>a = 1 / 10, b = 1, sigma = 3 / 100\<rparr>]
        [0, 1]
      = (Inr [21 / 200, 171 / 200], 4)
   \<and> returns_population [0, 1 / 10] [1 / 2, 1] [2 / 100, 9 / 100] 1 = Inr [52 / 100, 119 / 100]
   \<and> returns_population [0, 1 / 10] [1 / 2, 1] [2 / 100, 9 / 100] 3 = Inr [152 / 100, 319 / 100]"
  using noise_drawn_once
          [of "\<lambda>g sd. (sd * real g, Suc g)" 2
              "[\<lparr>a = 0, b = 1 / 2, sigma = 1 / 100\<rparr>, \<lparr>a = 1 / 10, b = 1, sigma = 3 / 100\<rparr>]"
              "[2 / 100, 9 / 100]" 4
              "\<lambda>f x0. case f x0 of Inl e \<Rightarrow> Inl e | Inr NaN \<Rightarrow> Inr x0 | Inr (Finite v) \<Rightarrow> Inr v"
              "[0, 1]" 1 3]
  by (simp add: sigma_trace_def returns_population_def np_add_def np_mean_def stock_loss_def
        upt_conv_Cons)

section \<open>Burn-in\<close>

text \<open>
  C8. Burn-in discards a prefix of fixed size, the first 20000 draws: the burned trace
  is the rest of the trace, and its length is the number of draws minus 20000. On
  the 100000 draws of the reference run the prefix is the first 20% and 80000 draws
  are kept, draw \<open>i\<close> of the burned trace being draw \<open>20000 + i\<close> of the trace.
\<close>

theorem burned_trace_suffix:
  "burned_trace trace = drop 20000 trace
   \<and> trace = take 20000 trace @ burned_trace trace
   \<and> length (burned_trace trace) = length trace - 20000
   \<and> (length trace = 100000 \<longrightarrow>
        length (take 20000 trace) = 20000
        \<and> 100 * length (take 20000 trace) = 20 * length trace
        \<and> length (burned_trace trace) = 80000
        \<and> (\<forall>i<80000. burned_trace trace ! i = trace ! (20000 + i)))"
  by (simp add: burned_trace_def)

theorem burned_trace_suffix_witness:
  "length (map (\<lambda>i. \<lparr>a = real i, b = 1 / 2, sigma = 1 / 100\<rparr>) [0..<100000]) = 100000
   \<and> length (burned_trace (map (\<lambda>i. \<lparr>a = real i, b = 1 / 2, sigma = 1 / 100\<rparr>) [0..<100000]))
       = 80000
   \<and> burned_trace (map (\<lambda>i. \<lparr>a = real i, b = 1 / 2, sigma = 1 / 100\<rparr>) [0..<100000]) ! 0
       = \<lparr>a = 20000, b = 1 / 2, sigma = 1 / 100\<rparr>"
  using burned_trace_suffix [of "map (\<lambda>i. \<lparr>a = real i, b = 1 / 2, sigma = 1 / 100\<rparr>) [0..<100000]"]
  by (simp del: upt_rec_numeral)

section \<open>The signal grid\<close>

lemma linspace_nth:
  "1 < num \<Longrightarrow> i < num \<Longrightarrow>
   linspace start stop num ! i = start + real i * ((stop - start) / real (num - 1))"
  by (simp add: linspace_def)

lemma linspace_step:
  assumes "1 < num" and "Suc i < num"
  shows "linspace start stop num ! Suc i - linspace start stop num ! i
           = (stop - start) / real (num - 1)"
proof -
  have "start + real (Suc i) * d - (start + real i * d) = d" for d :: real
    by (simp add: algebra_simps)
  then show ?thesis using assms by (simp only: linspace_nth Suc_lessD)
qed

lemma linspace_sorted:
  assumes "start \<le> stop"
  shows "sorted (linspace start stop num)"
proof (cases "num = 1")
  case True
  then show ?thesis by (simp add: linspace_def)
next
  case False
  have step: "0 \<le> (stop - start) / real (num - 1)" using assms by simp
  have "sorted_wrt (\<lambda>i j. start + real i * ((stop - start) / real (num - 1))
                          \<le> start + real j * ((stop - start) / real (num - 1))) [0..<num]"
  proof (rule sorted_wrt_mono_rel [where P = "(<)"])
    show "sorted_wrt (<) [0..<num]" by simp
  next
    fix i j :: nat
    assume "i < j"
    then have "real i \<le> real j" by simp
    then have "real i * ((stop - start) / real (num - 1))
                 \<le> real j * ((stop - start) / real (num - 1))"
      using step by (rule mult_right_mono)
    then show "start + real i * ((stop - start) / real (num - 1))
                 \<le> start + real j * ((stop - start) / real (num - 1))"
      by simp
  qed
  then show ?thesis using False by (simp add: linspace_def sorted_map)
qed

text \<open>
  C9. For a non-empty array of observed signals, the signal grid is a sequence of 50
  values, in ascending order and evenly spaced: the first is the least observed
  signal, the last is the greatest, and every two consecutive values differ by the
  same amount, a 49th of the range.
\<close>

theorem signals_grid:
  assumes "X \<noteq> []"
  shows "\<exists>grid. signals X = Inr grid
           \<and> length grid = 50
           \<and> grid ! 0 = Min (set X) \<and> hd grid = Min (set X)
           \<and> grid ! 49 = Max (set X) \<and> last grid = Max (set X)
           \<and> (\<forall>i<49. grid ! Suc i - grid ! i = (Max (set X) - Min (set X)) / 49)
           \<and> sorted grid"
proof -
  let ?lo = "Min (set X)" and ?hi = "Max (set X)"
  let ?grid = "linspace ?lo ?hi 50"
  have sig: "signals X = Inr ?grid"
    using assms by (simp add: signals_def np_min_def np_max_def)
  have len: "length ?grid = 50" by (simp add: linspace_def)
  have ne: "?grid \<noteq> []" using len by auto
  have first: "?grid ! 0 = ?lo" by (simp add: linspace_nth)
  have final: "?grid ! 49 = ?hi" by (simp add: linspace_nth field_simps)
  have hd: "hd ?grid = ?lo" using first ne by (simp add: hd_conv_nth)
  have lst: "last ?grid = ?hi" using final ne len by (simp add: last_conv_nth)
  have step: "\<forall>i<49. ?grid ! Suc i - ?grid ! i = (?hi - ?lo) / 49"
    by (simp add: linspace_step)
  have "?lo \<le> ?hi" using assms by simp
  then have srt: "sorted ?grid" by (rule linspace_sorted)
  from sig len first final hd lst step srt show ?thesis by blast
qed

theorem signals_grid_witness:
  "[2 / 100, - (6 / 100), 6 / 100 :: real] \<noteq> []
   \<and> signals [2 / 100, - (6 / 100), 6 / 100] = Inr (linspace (- (6 / 100)) (6 / 100) 50)
   \<and> length (linspace (- (6 / 100)) (6 / 100) 50) = 50
   \<and> linspace (- (6 / 100)) (6 / 100) 50 ! 0 = - (6 / 100)
   \<and> linspace (- (6 / 100)) (6 / 100) 50 ! 49 = 6 / 100
   \<and> linspace (- (6 / 100)) (6 / 100) 50 ! 1 - linspace (- (6 / 100)) (6 / 100) 50 ! 0
       = 12 / 4900"
  using signals_grid [of "[2 / 100, - (6 / 100), 6 / 100]"]
  by (simp add: signals_def np_min_def np_max_def linspace_nth del: upt_rec_numeral)

end
